theory Spec2Isabelle
  imports Complex_Main "HOL-Library.Char_ord" "HOL-Library.List_Lexorder"
begin

section \<open>JavaScript numbers and the two number parsers the server calls\<close>

text \<open>
  A JavaScript number is modelled by its exact value: \<open>Finite x\<close> with \<open>x\<close> rational, the
  two infinities, and \<open>NaN\<close>. The rounding of a decimal literal to the nearest IEEE double
  is not modelled; \<open>-0\<close> and \<open>0\<close> are the same value (both are falsy in JavaScript).
  Strings are ASCII byte strings.
\<close>

datatype jsnum = NaN | NegInf | Finite rat | PosInf

text \<open>\<^verbatim>\<open>x || d\<close> on numbers: \<open>NaN\<close> and \<open>0\<close> are falsy.\<close>

definition js_or :: "jsnum \<Rightarrow> jsnum \<Rightarrow> jsnum" where
  "js_or x d = (case x of NaN \<Rightarrow> d | Finite v \<Rightarrow> (if v = 0 then d else x) | _ \<Rightarrow> x)"

text \<open>\<^verbatim>\<open>Math.max(a, b)\<close>.\<close>

definition Math_max :: "jsnum \<Rightarrow> jsnum \<Rightarrow> jsnum" where
  "Math_max a b =
     (case (a, b) of
        (NaN, _) \<Rightarrow> NaN
      | (_, NaN) \<Rightarrow> NaN
      | (PosInf, _) \<Rightarrow> PosInf
      | (_, PosInf) \<Rightarrow> PosInf
      | (NegInf, y) \<Rightarrow> y
      | (x, NegInf) \<Rightarrow> x
      | (Finite x, Finite y) \<Rightarrow> Finite (max x y))"

text \<open>\<^verbatim>\<open>x * c\<close> for a positive constant \<open>c\<close>, and \<^verbatim>\<open>n - x\<close> for an integer \<open>n\<close>.\<close>

definition js_times_pos :: "jsnum \<Rightarrow> rat \<Rightarrow> jsnum" where
  "js_times_pos x c = (case x of Finite v \<Rightarrow> Finite (v * c) | _ \<Rightarrow> x)"

definition js_int_minus :: "int \<Rightarrow> jsnum \<Rightarrow> jsnum" where
  "js_int_minus n x =
     (case x of NaN \<Rightarrow> NaN | NegInf \<Rightarrow> PosInf | PosInf \<Rightarrow> NegInf
      | Finite v \<Rightarrow> Finite (of_int n - v))"

definition js_negate :: "jsnum \<Rightarrow> jsnum" where
  "js_negate x =
     (case x of NaN \<Rightarrow> NaN | NegInf \<Rightarrow> PosInf | PosInf \<Rightarrow> NegInf
      | Finite v \<Rightarrow> Finite (- v))"

text \<open>Character classes: \<^verbatim>\<open>\s\<close> (ASCII part), \<^verbatim>\<open>\d\<close>, \<^verbatim>\<open>[\d.]\<close>, and ASCII case folding
  for the \<^verbatim>\<open>/i\<close> flag.\<close>

definition is_space :: "char \<Rightarrow> bool" where
  "is_space c = (c \<in> set [CHR 0x09, CHR 0x0A, CHR 0x0B, CHR 0x0C, CHR 0x0D, CHR '' ''])"

definition is_digit :: "char \<Rightarrow> bool" where
  "is_digit c = (c \<in> set ''0123456789'')"

definition is_numch :: "char \<Rightarrow> bool" where
  "is_numch c = (is_digit c \<or> c = CHR ''.'')"

definition to_lower :: "char \<Rightarrow> char" where
  "to_lower c =
     (let n = (of_char c :: nat) in if 65 \<le> n \<and> n \<le> 90 then char_of (n + 32) else c)"

definition digit_val :: "char \<Rightarrow> int" where
  "digit_val c = (of_char c :: int) - 48"

definition digits_val :: "string \<Rightarrow> int" where
  "digits_val ds = foldl (\<lambda>a c. 10 * a + digit_val c) 0 ds"

definition pow10 :: "int \<Rightarrow> rat" where
  "pow10 e = (if 0 \<le> e then 10 ^ nat e else 1 / 10 ^ nat (- e))"

text \<open>The optional exponent part of a decimal literal; it counts only when it has digits.\<close>

definition parse_exponent :: "string \<Rightarrow> int" where
  "parse_exponent r =
     (case r of
        [] \<Rightarrow> 0
      | e # r1 \<Rightarrow>
          if e = CHR ''e'' \<or> e = CHR ''E'' then
            (let neg = (case r1 of [] \<Rightarrow> False | c # _ \<Rightarrow> c = CHR ''-'');
                 r2 = (case r1 of [] \<Rightarrow> []
                        | c # r' \<Rightarrow> if c = CHR ''-'' \<or> c = CHR ''+'' then r' else r1);
                 ds = takeWhile is_digit r2
             in if ds = [] then 0
                else if neg then - digits_val ds else digits_val ds)
          else 0)"

text \<open>The longest prefix that is an unsigned decimal literal (\<^verbatim>\<open>Infinity\<close>, \<^verbatim>\<open>12\<close>, \<^verbatim>\<open>12.\<close>,
  \<^verbatim>\<open>12.5\<close>, \<^verbatim>\<open>.5\<close>, each with an optional exponent); \<open>NaN\<close> when there is none.\<close>

definition parse_unsigned :: "string \<Rightarrow> jsnum" where
  "parse_unsigned s =
     (if take 8 s = ''Infinity'' then PosInf
      else
        (let ip = takeWhile is_digit s;
             r1 = dropWhile is_digit s;
             dot = (case r1 of [] \<Rightarrow> False | c # _ \<Rightarrow> c = CHR ''.'');
             fp = (if dot then takeWhile is_digit (tl r1) else []);
             r2 = (if dot then dropWhile is_digit (tl r1) else r1)
         in if ip = [] \<and> fp = [] then NaN
            else Finite (of_int (digits_val (ip @ fp)) / 10 ^ length fp
                         * pow10 (parse_exponent r2))))"

text \<open>\<^verbatim>\<open>parseFloat(s)\<close> for a string \<open>s\<close>: leading white space, an optional sign, then the
  longest decimal literal.\<close>

definition parseFloat :: "string \<Rightarrow> jsnum" where
  "parseFloat s =
     (let s1 = dropWhile is_space s in
      case s1 of
        [] \<Rightarrow> NaN
      | c # r \<Rightarrow>
          if c = CHR ''-'' then js_negate (parse_unsigned r)
          else if c = CHR ''+'' then parse_unsigned r
          else parse_unsigned s1)"

text \<open>\<^verbatim>\<open>parseInt(s, 10)\<close>: leading white space, an optional sign, then decimal digits.\<close>

definition parseInt10 :: "string \<Rightarrow> jsnum" where
  "parseInt10 s =
     (let s1 = dropWhile is_space s;
          neg = (case s1 of [] \<Rightarrow> False | c # _ \<Rightarrow> c = CHR ''-'');
          s2 = (case s1 of [] \<Rightarrow> []
                 | c # r \<Rightarrow> if c = CHR ''-'' \<or> c = CHR ''+'' then r else s1);
          ds = takeWhile is_digit s2
      in if ds = [] then NaN
         else if neg then Finite (- of_int (digits_val ds)) else Finite (of_int (digits_val ds)))"

section \<open>The probe executor: \<^verbatim>\<open>runPingCommand\<close>\<close>

text \<open>
  Both servers (\<^verbatim>\<open>server-sqlite3.js\<close> and the better-sqlite3 \<^verbatim>\<open>server.js\<close>) carry the same
  parser, character for character, so one definition stands for both.

  The three regular expressions are matched by hand. None of them needs backtracking:
  in \<^verbatim>\<open>/time[=<]\s*([\d.]+)\s*ms/i\<close> the classes \<^verbatim>\<open>\s\<close>, \<^verbatim>\<open>[\d.]\<close> and the letter \<^verbatim>\<open>m\<close> are
  pairwise disjoint, so a greedy run that stops short can only be followed by a character
  of its own class; the same holds for \<^verbatim>\<open>/ttl[=|:]\s*(\d+)/i\<close>.
\<close>

text \<open>Strip a literal (given in lower case) from the head of a string, ignoring case.\<close>

fun ci_prefix :: "string \<Rightarrow> string \<Rightarrow> string option" where
  "ci_prefix [] s = Some s"
| "ci_prefix (p # ps) [] = None"
| "ci_prefix (p # ps) (c # cs) = (if to_lower c = p then ci_prefix ps cs else None)"

text \<open>The leftmost position at which an anchored matcher succeeds.\<close>

fun first_match :: "(string \<Rightarrow> 'a option) \<Rightarrow> string \<Rightarrow> 'a option" where
  "first_match f [] = f []"
| "first_match f (c # cs) =
     (case f (c # cs) of Some x \<Rightarrow> Some x | None \<Rightarrow> first_match f cs)"

text \<open>\<^verbatim>\<open>/time[=<]\s*([\d.]+)\s*ms/i\<close> anchored at the head; the result is capture group 1.\<close>

definition time_at :: "string \<Rightarrow> string option" where
  "time_at s =
     (case ci_prefix ''time'' s of
        None \<Rightarrow> None
      | Some r1 \<Rightarrow>
          (case r1 of
             [] \<Rightarrow> None
           | c # r2 \<Rightarrow>
               if c = CHR ''='' \<or> c = CHR ''<'' then
                 (let r3 = dropWhile is_space r2;
                      cap = takeWhile is_numch r3;
                      r4 = dropWhile is_space (dropWhile is_numch r3)
                  in if cap \<noteq> [] \<and> ci_prefix ''ms'' r4 \<noteq> None then Some cap else None)
               else None))"

text \<open>\<^verbatim>\<open>/ttl[=|:]\s*(\d+)/i\<close> anchored at the head; the result is capture group 1.\<close>

definition ttl_at :: "string \<Rightarrow> string option" where
  "ttl_at s =
     (case ci_prefix ''ttl'' s of
        None \<Rightarrow> None
      | Some r1 \<Rightarrow>
          (case r1 of
             [] \<Rightarrow> None
           | c # r2 \<Rightarrow>
               if c = CHR ''='' \<or> c = CHR ''|'' \<or> c = CHR '':'' then
                 (let cap = takeWhile is_digit (dropWhile is_space r2)
                  in if cap \<noteq> [] then Some cap else None)
               else None))"

definition timeMatch :: "string \<Rightarrow> string option" where
  "timeMatch raw = first_match time_at raw"

definition ttlMatch :: "string \<Rightarrow> string option" where
  "ttlMatch raw = first_match ttl_at raw"

text \<open>\<^verbatim>\<open>/bytes from/i.test(raw)\<close>.\<close>

definition bytes_from :: "string \<Rightarrow> bool" where
  "bytes_from raw = (first_match (ci_prefix ''bytes from'') raw \<noteq> None)"

text \<open>The object handed to the callback: \<^verbatim>\<open>{ raw, alive, time_ms, ttl }\<close>. \<open>None\<close> is
  JavaScript's \<^verbatim>\<open>null\<close>.\<close>

record probe =
  raw :: string
  alive :: int
  time_ms :: "jsnum option"
  ttl :: "jsnum option"

text \<open>The callback of \<^verbatim>\<open>exec\<close> inside \<^verbatim>\<open>runPingCommand\<close>, as a function of what the
  \<^verbatim>\<open>ping\<close> process wrote to its two streams. The \<^verbatim>\<open>err\<close> argument is not looked at.\<close>

definition runPingCommand :: "string \<Rightarrow> string \<Rightarrow> probe" where
  "runPingCommand stdout stderr =
     (let raw' = stdout @ stderr;
          tm = timeMatch raw';
          tt = ttlMatch raw'
      in \<lparr> raw = raw',
           alive = (if tm \<noteq> None \<or> bytes_from raw' then 1 else 0),
           time_ms = (case tm of None \<Rightarrow> None | Some cap \<Rightarrow> Some (parseFloat cap)),
           ttl = (case tt of None \<Rightarrow> None | Some cap \<Rightarrow> Some (parseInt10 cap)) \<rparr>)"

section \<open>The time-series store\<close>

text \<open>A row of table \<^verbatim>\<open>pings\<close> (the \<^verbatim>\<open>id\<close> column, which no query reads, is left out).
  \<^verbatim>\<open>time_ms REAL\<close> and \<^verbatim>\<open>ttl INTEGER\<close> may be \<^verbatim>\<open>NULL\<close>. The ping loop is the only writer and
  binds \<^verbatim>\<open>res.alive\<close>, which is \<open>0\<close> or \<open>1\<close>.\<close>

record ping_row =
  p_ts :: int
  p_target :: string
  p_alive :: int
  p_time_ms :: "rat option"
  p_ttl :: "int option"
  p_raw :: string

text \<open>A row of table \<^verbatim>\<open>traceroutes\<close>.\<close>

record trace_row =
  tr_ts :: int
  tr_target :: string
  tr_raw :: string

text \<open>The configured targets, as both servers list them.\<close>

definition TARGETS :: "string list" where
  "TARGETS = [''google.com'', ''8.8.8.8'', ''1.1.1.1'', ''frontier.com'', ''192.168.2.1'']"

text \<open>SQLite's \<^verbatim>\<open>/\<close> on two integers truncates toward zero.\<close>

definition sql_div :: "int \<Rightarrow> int \<Rightarrow> int" where
  "sql_div a b = sgn a * sgn b * (\<bar>a\<bar> div \<bar>b\<bar>)"

text \<open>\<^verbatim>\<open>AVG\<close> over a group: the mean of the non-\<^verbatim>\<open>NULL\<close> values, \<^verbatim>\<open>NULL\<close> when there is none.\<close>

definition non_null :: "'a option list \<Rightarrow> 'a list" where
  "non_null vs = map the (filter (\<lambda>v. v \<noteq> None) vs)"

definition sql_avg :: "rat option list \<Rightarrow> rat option" where
  "sql_avg vs =
     (let xs = non_null vs
      in if xs = [] then None else Some (sum_list xs / of_nat (length xs)))"

section \<open>The ping loop\<close>

text \<open>How a JavaScript value is stored in a \<^verbatim>\<open>REAL\<close> and in an \<^verbatim>\<open>INTEGER\<close> column: \<^verbatim>\<open>null\<close> and
  \<open>NaN\<close> become \<^verbatim>\<open>NULL\<close>. The model has no column value for an infinity, and the parser never
  yields one for \<^verbatim>\<open>time_ms\<close> or \<^verbatim>\<open>ttl\<close>.\<close>

definition bind_real :: "jsnum option \<Rightarrow> rat option" where
  "bind_real v = (case v of Some (Finite x) \<Rightarrow> Some x | _ \<Rightarrow> None)"

definition bind_integer :: "jsnum option \<Rightarrow> int option" where
  "bind_integer v = (case v of Some (Finite x) \<Rightarrow> Some \<lfloor>x\<rfloor> | _ \<Rightarrow> None)"

text \<open>One tick of \<^verbatim>\<open>startPingLoop\<close> for \<open>target\<close>: \<open>ts\<close> is \<^verbatim>\<open>Date.now()\<close> at the tick, and the
  callback of the probe inserts \<^verbatim>\<open>(ts, target, res.alive, res.time_ms, res.ttl, res.raw)\<close>.
  (An insert that fails is logged and leaves the table as it was.)\<close>

definition ping_tick ::
  "int \<Rightarrow> string \<Rightarrow> string \<Rightarrow> string \<Rightarrow> ping_row list \<Rightarrow> ping_row list" where
  "ping_tick ts target stdout stderr pings =
     (let res = runPingCommand stdout stderr
      in pings @ [\<lparr> p_ts = ts, p_target = target, p_alive = alive res,
                     p_time_ms = bind_real (time_ms res), p_ttl = bind_integer (ttl res),
                     p_raw = raw res \<rparr>])"

section \<open>The daily export: \<^verbatim>\<open>export_daily_csv.sh\<close>\<close>

text \<open>The day is given by \<^verbatim>\<open>START_S\<close>, the epoch second \<^verbatim>\<open>date\<close> prints for its local midnight.\<close>

definition START_MS :: "int \<Rightarrow> int" where
  "START_MS start_s = start_s * 1000"

definition END_MS :: "int \<Rightarrow> int" where
  "END_MS start_s = (start_s + 24 * 60 * 60) * 1000"




text \<open>A row of the table \<^verbatim>\<open>agg\<close>.\<close>

record agg_row =
  a_minute_ts :: int
  a_target :: string
  a_total :: int
  a_success_count :: int
  a_avg_ms :: "rat option"

definition in_day :: "int \<Rightarrow> ping_row \<Rightarrow> bool" where
  "in_day start_s p = (START_MS start_s \<le> p_ts p \<and> p_ts p < END_MS start_s)"

definition minute_ts :: "ping_row \<Rightarrow> int" where
  "minute_ts p = sql_div (p_ts p) 60000 * 60000"

text \<open>One group of \<^verbatim>\<open>GROUP BY minute_ts, p.target\<close> and its aggregates.\<close>

definition agg_group :: "ping_row list \<Rightarrow> int \<times> string \<Rightarrow> agg_row" where
  "agg_group ws k =
     (let g = filter (\<lambda>p. (minute_ts p, p_target p) = k) ws
      in \<lparr> a_minute_ts = fst k,
           a_target = snd k,
           a_total = int (length g),
           a_success_count = sum_list (map (\<lambda>p. if p_alive p = 1 then 1 else 0) g),
           a_avg_ms = sql_avg (map p_time_ms g) \<rparr>)"


text \<open>\<^verbatim>\<open>printf('%.Nf', x)\<close> for \<open>N > 0\<close>, on the exact value: rounded half away from zero to
  \<open>N\<close> decimals. (SQLite rounds the double it holds; the double nearest to a decimal tie
  may lie on either side of it.)\<close>

fun nat_digits :: "nat \<Rightarrow> string" where
  "nat_digits n =
     (if n < 10 then [char_of (48 + n)] else nat_digits (n div 10) @ [char_of (48 + n mod 10)])"

declare nat_digits.simps [simp del]












section \<open>The live dashboard: \<^verbatim>\<open>public/app.js\<close>\<close>

text \<open>One bucket of \<^verbatim>\<open>buildAggregatedTimeline\<close>, \<^verbatim>\<open>{ok, total}\<close>, and the CSS class
  \<^verbatim>\<open>renderTimeline\<close> adds to its segment.\<close>

record bucket =
  ok :: nat
  total :: nat

definition segment_class :: "bucket \<Rightarrow> string" where
  "segment_class b =
     (if total b = 0 then ''warning''
      else
        (let ratio = (of_nat (ok b) :: rat) / of_nat (total b)
         in if ratio \<ge> 9 / 10 then ''success''
            else if ratio \<ge> 1 / 2 then ''warning''
            else ''fail''))"

section \<open>The failures report: \<^verbatim>\<open>generate-failures-report.sh\<close>\<close>

definition TOL_MS :: int where
  "TOL_MS = 1500"

definition TARGET_KEY :: string where
  "TARGET_KEY = ''1.1.1.1''"

definition TARGETS_OTHER :: "string list" where
  "TARGETS_OTHER = [''8.8.8.8'', ''google.com'', ''frontier.com'', ''192.168.2.1'']"

text \<open>\<^verbatim>\<open>EXISTS (SELECT 1 FROM pings p2 WHERE p2.target = tgt AND p2.ts BETWEEN f.ts - TOL AND
  f.ts + TOL AND p2.alive = a)\<close>.\<close>

definition exists_near :: "ping_row list \<Rightarrow> string \<Rightarrow> int \<Rightarrow> int \<Rightarrow> bool" where
  "exists_near pings tgt f_ts a =
     list_ex (\<lambda>p2. p_target p2 = tgt \<and> f_ts - TOL_MS \<le> p_ts p2 \<and> p_ts p2 \<le> f_ts + TOL_MS
                   \<and> p_alive p2 = a) pings"

text \<open>One of the four \<^verbatim>\<open>CASE\<close> columns; the query writes it out once per other target.\<close>

definition other_col :: "ping_row list \<Rightarrow> int \<Rightarrow> string \<Rightarrow> string" where
  "other_col pings f_ts tgt =
     (if exists_near pings tgt f_ts 1 then ''success''
      else if exists_near pings tgt f_ts 0 then ''fail''
      else ''no_data'')"

text \<open>One line of the report: \<open>fr_ts\<close> holds \<^verbatim>\<open>f.ts\<close> (shown as a local date and time), \<open>fr_key\<close>
  the column of the key target, \<open>fr_others\<close> the four other columns, each with the target it
  was computed for (the last one is headed \<^verbatim>\<open>Local DNS\<close> in the file).\<close>

record failure_row =
  fr_ts :: int
  fr_key :: string
  fr_others :: "(string \<times> string) list"

definition key_failure :: "int \<Rightarrow> ping_row \<Rightarrow> bool" where
  "key_failure start_s f =
     (p_target f = ''1.1.1.1'' \<and> p_alive f = 0
      \<and> p_ts f \<ge> START_MS start_s \<and> p_ts f < END_MS start_s)"

definition failures_report :: "int \<Rightarrow> ping_row list \<Rightarrow> failure_row list" where
  "failures_report start_s pings =
     map (\<lambda>f. \<lparr> fr_ts = p_ts f,
                fr_key = ''fail'',
                fr_others = map (\<lambda>tgt. (tgt, other_col pings (p_ts f) tgt))
                              [''8.8.8.8'', ''google.com'', ''frontier.com'', ''192.168.2.1''] \<rparr>)
       (sort_key p_ts (filter (key_failure start_s) pings))"

section \<open>The query API of the servers\<close>

text \<open>The store as the handlers see it: the two tables, and \<open>db_fault\<close>, the error every read
  fails with while the store cannot be read (\<open>None\<close> when it can).\<close>

record db =
  db_pings :: "ping_row list"
  db_traceroutes :: "trace_row list"
  db_fault :: "string option"

text \<open>The query string: \<^verbatim>\<open>req.query.hours\<close> and \<^verbatim>\<open>req.query.limit\<close>, \<open>None\<close> when absent.\<close>

record request =
  q_hours :: "string option"
  q_limit :: "string option"

text \<open>\<^verbatim>\<open>ts >= ?\<close> with a bound number (\<open>NaN\<close> is bound as \<^verbatim>\<open>NULL\<close>), and \<^verbatim>\<open>LIMIT ?\<close>: a value
  that is no integer is an error, a negative one means no bound.\<close>

definition sql_ge :: "int \<Rightarrow> jsnum \<Rightarrow> bool" where
  "sql_ge ts v =
     (case v of NaN \<Rightarrow> False | NegInf \<Rightarrow> True | PosInf \<Rightarrow> False | Finite x \<Rightarrow> of_int ts \<ge> x)"

definition sql_limit :: "jsnum \<Rightarrow> 'a list \<Rightarrow> string + 'a list" where
  "sql_limit n xs =
     (case n of
        Finite x \<Rightarrow>
          if of_int \<lfloor>x\<rfloor> = x then Inr (if x < 0 then xs else take (nat \<lfloor>x\<rfloor>) xs)
          else Inl ''datatype mismatch''
      | _ \<Rightarrow> Inl ''datatype mismatch'')"

text \<open>\<^verbatim>\<open>SELECT * FROM pings WHERE ts >= ? ORDER BY ts ASC LIMIT ?\<close>; \<open>Inl\<close> is the error.\<close>

definition query_pings :: "db \<Rightarrow> jsnum \<Rightarrow> jsnum \<Rightarrow> string + ping_row list" where
  "query_pings d since limit =
     (case db_fault d of
        Some e \<Rightarrow> Inl e
      | None \<Rightarrow> sql_limit limit (sort_key p_ts (filter (\<lambda>p. sql_ge (p_ts p) since) (db_pings d))))"

text \<open>\<^verbatim>\<open>SELECT * FROM traceroutes ORDER BY ts DESC LIMIT ?\<close>.\<close>

definition query_traceroutes :: "db \<Rightarrow> jsnum \<Rightarrow> string + trace_row list" where
  "query_traceroutes d limit =
     (case db_fault d of
        Some e \<Rightarrow> Inl e
      | None \<Rightarrow> sql_limit limit (sort_key (\<lambda>r. - tr_ts r) (db_traceroutes d)))"

text \<open>\<^verbatim>\<open>SELECT * FROM pings WHERE target = ? ORDER BY ts DESC LIMIT 1\<close>.\<close>

definition query_latest :: "db \<Rightarrow> string \<Rightarrow> string + ping_row option" where
  "query_latest d tgt =
     (case db_fault d of
        Some e \<Rightarrow> Inl e
      | None \<Rightarrow>
          (case sort_key (\<lambda>p. - p_ts p) (filter (\<lambda>p. p_target p = tgt) (db_pings d)) of
             [] \<Rightarrow> Inr None
           | r # _ \<Rightarrow> Inr (Some r)))"

text \<open>The JSON bodies the handlers send: \<^verbatim>\<open>{ok:true, since, rows}\<close>,
  \<^verbatim>\<open>{ok:true, targets, latest}\<close>, \<^verbatim>\<open>{ok:true, rows}\<close> and \<^verbatim>\<open>{ok:false, err}\<close>.\<close>

datatype body =
    PingsOk jsnum "ping_row list"
  | StatusOk "string list" "(string \<times> ping_row option) list"
  | TraceroutesOk "trace_row list"
  | NotOk string

fun ok_field :: "body \<Rightarrow> bool" where
  "ok_field (NotOk e) = False"
| "ok_field b = True"

fun err_field :: "body \<Rightarrow> string option" where
  "err_field (NotOk e) = Some e"
| "err_field b = None"

record response =
  status :: nat
  body :: body

text \<open>\<^verbatim>\<open>res.json(b)\<close>: no handler sets a status, so it is Express's default 200.\<close>

definition res_json :: "body \<Rightarrow> response" where
  "res_json b = \<lparr> status = 200, body = b \<rparr>"

subsection \<open>\<^verbatim>\<open>GET /api/pings\<close>\<close>

definition pings_hours :: "request \<Rightarrow> jsnum" where
  "pings_hours req =
     js_or (case q_hours req of None \<Rightarrow> NaN | Some s \<Rightarrow> parseFloat s) (Finite 24)"

definition pings_since :: "int \<Rightarrow> request \<Rightarrow> jsnum" where
  "pings_since now req =
     js_int_minus now (js_times_pos (Math_max (Finite 1) (pings_hours req)) (60 * 60 * 1000))"

text \<open>\<^verbatim>\<open>parseInt(req.query.limit || dflt, 10)\<close>: an absent or empty parameter is falsy.\<close>

definition limit_param :: "request \<Rightarrow> string \<Rightarrow> jsnum" where
  "limit_param req dflt =
     parseInt10 (case q_limit req of None \<Rightarrow> dflt | Some s \<Rightarrow> if s = [] then dflt else s)"

text \<open>The handler of \<^verbatim>\<open>server-sqlite3.js\<close>, at time \<open>now\<close> (\<^verbatim>\<open>Date.now()\<close>).\<close>

definition api_pings :: "int \<Rightarrow> request \<Rightarrow> db \<Rightarrow> response" where
  "api_pings now req d =
     (let since = pings_since now req;
          limit = limit_param req ''200000''
      in case query_pings d since limit of
           Inl err \<Rightarrow> res_json (NotOk err)
         | Inr rows \<Rightarrow> res_json (PingsOk since rows))"

text \<open>The handler of the better-sqlite3 \<^verbatim>\<open>server.js\<close>: the query is synchronous and nothing
  catches what it throws; \<open>Inl\<close> is the exception leaving the handler.\<close>

definition api_pings_better :: "int \<Rightarrow> request \<Rightarrow> db \<Rightarrow> string + response" where
  "api_pings_better now req d =
     (let since = pings_since now req;
          limit = limit_param req ''200000''
      in case query_pings d since limit of
           Inl err \<Rightarrow> Inl err
         | Inr rows \<Rightarrow> Inr (res_json (PingsOk since rows)))"

subsection \<open>\<^verbatim>\<open>GET /api/traceroutes\<close>\<close>

definition api_traceroutes :: "request \<Rightarrow> db \<Rightarrow> response" where
  "api_traceroutes req d =
     (let limit = limit_param req ''10''
      in case query_traceroutes d limit of
           Inl err \<Rightarrow> res_json (NotOk err)
         | Inr rows \<Rightarrow> res_json (TraceroutesOk rows))"

subsection \<open>\<^verbatim>\<open>GET /api/status\<close> of \<^verbatim>\<open>server-sqlite3.js\<close>\<close>

text \<open>\<^verbatim>\<open>obj[k] = v\<close> on an object kept as its list of properties.\<close>

fun obj_set :: "(string \<times> 'v) list \<Rightarrow> string \<Rightarrow> 'v \<Rightarrow> (string \<times> 'v) list" where
  "obj_set [] k v = [(k, v)]"
| "obj_set ((k', v') # kvs) k v =
     (if k' = k then (k, v) # kvs else (k', v') # obj_set kvs k v)"

text \<open>The handler starts one \<^verbatim>\<open>db.get\<close> per target and returns; each read later calls back
  with \<^verbatim>\<open>(err, row)\<close>. The state the callbacks share: the object \<^verbatim>\<open>latest\<close>, the counter
  \<^verbatim>\<open>processed\<close>, and what has been sent on \<^verbatim>\<open>res\<close> so far.\<close>

record status_state =
  latest :: "(string \<times> ping_row option) list"
  processed :: nat
  sent :: "response list"

definition status_init :: status_state where
  "status_init = \<lparr> latest = [], processed = 0, sent = [] \<rparr>"

text \<open>One callback, for \<open>tgt\<close>, with the outcome of its read: \<open>Inl err\<close>, or \<open>Inr row\<close> where
  \<open>row\<close> is \<open>None\<close> when the target has no sample. \<^verbatim>\<open>row || null\<close> is \<^verbatim>\<open>null\<close> in both the
  error case (\<^verbatim>\<open>row\<close> is undefined then) and the no-sample case.\<close>

definition row_or_null :: "string + ping_row option \<Rightarrow> ping_row option" where
  "row_or_null outcome = (case outcome of Inl err \<Rightarrow> None | Inr row \<Rightarrow> row)"

definition status_callback ::
  "string \<Rightarrow> string + ping_row option \<Rightarrow> status_state \<Rightarrow> status_state" where
  "status_callback tgt outcome st =
     (let st1 = st \<lparr> processed := processed st + 1,
                     latest := obj_set (latest st) tgt (row_or_null outcome) \<rparr>
      in if processed st1 = length TARGETS
         then st1 \<lparr> sent := sent st1 @ [res_json (StatusOk TARGETS (latest st1))] \<rparr>
         else st1)"

text \<open>The request after the callbacks \<open>cbs\<close> have run, in the order they came.\<close>

definition api_status :: "(string \<times> (string + ping_row option)) list \<Rightarrow> status_state" where
  "api_status cbs = foldl (\<lambda>st (tgt, outcome). status_callback tgt outcome st) status_init cbs"

section \<open>Notions the statements below are written in\<close>




text \<open>What holds of every row the ping loop inserts: \<open>ts\<close> is \<^verbatim>\<open>Date.now()\<close>, epoch
  milliseconds, and \<open>alive\<close> is the parser's \<open>0\<close> or \<open>1\<close>.\<close>

definition written_by_ping_loop :: "ping_row list \<Rightarrow> bool" where
  "written_by_ping_loop pings =
     list_all (\<lambda>p. 0 \<le> p_ts p \<and> (p_alive p = 0 \<or> p_alive p = 1)) pings"

text \<open>A small store for the worked examples: three probes of \<^verbatim>\<open>1.1.1.1\<close> in the first minute
  of 1970-01-01 UTC, the last one failed; around that failure, two probes of \<^verbatim>\<open>8.8.8.8\<close> one
  second later (one failed, one answered), a failed probe of \<^verbatim>\<open>google.com\<close> 1400 ms later, a
  probe of \<^verbatim>\<open>frontier.com\<close> 1501 ms later; and two failed probes of \<^verbatim>\<open>8.8.8.8\<close> in the second
  minute.\<close>

definition sample :: "int \<Rightarrow> string \<Rightarrow> int \<Rightarrow> rat option \<Rightarrow> ping_row" where
  "sample ts tgt a lat =
     \<lparr> p_ts = ts, p_target = tgt, p_alive = a, p_time_ms = lat, p_ttl = None, p_raw = [] \<rparr>"

definition example_pings :: "ping_row list" where
  "example_pings =
     [ sample 0 ''1.1.1.1'' 1 (Some 10),
       sample 1000 ''1.1.1.1'' 1 (Some 11),
       sample 2000 ''1.1.1.1'' 0 None,
       sample 3000 ''8.8.8.8'' 0 None,
       sample 3000 ''8.8.8.8'' 1 (Some 20),
       sample 3400 ''google.com'' 0 None,
       sample 3501 ''frontier.com'' 1 (Some 30),
       sample 60000 ''8.8.8.8'' 0 None,
       sample 61000 ''8.8.8.8'' 0 None ]"

text \<open>One way the five reads of a status request may call back: out of order, two of them
  failing, two finding no sample.\<close>

definition example_callbacks :: "(string \<times> (string + ping_row option)) list" where
  "example_callbacks =
     [ (''8.8.8.8'', Inl ''SQLITE_BUSY: database is locked''),
       (''google.com'', Inr None),
       (''1.1.1.1'', Inr (Some (sample 2000 ''1.1.1.1'' 0 None))),
       (''192.168.2.1'', Inl ''SQLITE_BUSY: database is locked''),
       (''frontier.com'', Inr None) ]"

text \<open>The example store behind the API, readable and locked.\<close>

definition example_db :: db where
  "example_db = \<lparr> db_pings = example_pings, db_traceroutes = [], db_fault = None \<rparr>"

definition locked_db :: db where
  "locked_db =
     \<lparr> db_pings = example_pings, db_traceroutes = [],
       db_fault = Some ''SQLITE_BUSY: database is locked'' \<rparr>"

section \<open>What the parser computes\<close>

lemma runPingCommand_alive:
  "alive (runPingCommand out err) =
     (if timeMatch (out @ err) \<noteq> None \<or> bytes_from (out @ err) then 1 else 0)"
  by (simp add: runPingCommand_def Let_def)

lemma runPingCommand_time_ms:
  "time_ms (runPingCommand out err) = map_option parseFloat (timeMatch (out @ err))"
  by (simp add: runPingCommand_def Let_def split: option.split)

lemma runPingCommand_alive_range:
  "alive (runPingCommand out err) = 0 \<or> alive (runPingCommand out err) = 1"
  by (simp add: runPingCommand_alive)

text \<open>
  Claim C6. For every captured probe output, the sample is reachable (\<open>alive = 1\<close>) exactly
  when the round-trip-time pattern matched or the reply marker \<^verbatim>\<open>bytes from\<close> occurs in the
  output; otherwise it is unreachable (\<open>alive = 0\<close>). In particular a reply marker alone
  makes the sample reachable while its latency stays \<^verbatim>\<open>null\<close>.
\<close>

theorem C6_reachable_iff_reply_evidence:
  "(alive (runPingCommand out err) = 1
      \<longleftrightarrow> timeMatch (out @ err) \<noteq> None \<or> bytes_from (out @ err))
   \<and> (alive (runPingCommand out err) = 0
      \<longleftrightarrow> \<not> (timeMatch (out @ err) \<noteq> None \<or> bytes_from (out @ err)))
   \<and> (timeMatch (out @ err) = None \<and> bytes_from (out @ err) \<longrightarrow>
        alive (runPingCommand out err) = 1 \<and> time_ms (runPingCommand out err) = None)"
  by (simp add: runPingCommand_alive runPingCommand_time_ms)

theorem C6_reachable_iff_reply_evidence_witness:
  "timeMatch (''64 bytes from 1.1.1.1: icmp_seq=1 ttl=57 (truncated)'' @ []) = None
   \<and> bytes_from (''64 bytes from 1.1.1.1: icmp_seq=1 ttl=57 (truncated)'' @ [])
   \<and> alive (runPingCommand ''64 bytes from 1.1.1.1: icmp_seq=1 ttl=57 (truncated)'' []) = 1
   \<and> time_ms (runPingCommand ''64 bytes from 1.1.1.1: icmp_seq=1 ttl=57 (truncated)'' [])
       = None"
proof -
  have h1: "timeMatch (''64 bytes from 1.1.1.1: icmp_seq=1 ttl=57 (truncated)'' @ []) = None"
    by code_simp
  have h2: "bytes_from (''64 bytes from 1.1.1.1: icmp_seq=1 ttl=57 (truncated)'' @ [])"
    by code_simp
  show ?thesis
    using h1 h2
      C6_reachable_iff_reply_evidence
        [of "''64 bytes from 1.1.1.1: icmp_seq=1 ttl=57 (truncated)''" "[]"]
    by blast
qed

text \<open>
  Claim C7. Every sample the probe executor produces satisfies: unreachable implies no
  latency. For any raw output, if the parser sets \<open>alive\<close> to \<open>0\<close> it leaves \<open>time_ms\<close>
  \<^verbatim>\<open>null\<close>.
\<close>

theorem C7_unreachable_has_no_latency:
  "alive (runPingCommand out err) = 0 \<Longrightarrow> time_ms (runPingCommand out err) = None"
  by (simp add: runPingCommand_alive runPingCommand_time_ms split: if_splits)

theorem C7_unreachable_has_no_latency_witness:
  "alive (runPingCommand
      ''1 packets transmitted, 0 received, 100% packet loss, time 0ms'' []) = 0
   \<and> time_ms (runPingCommand
      ''1 packets transmitted, 0 received, 100% packet loss, time 0ms'' []) = None"
proof -
  have h: "alive (runPingCommand
      ''1 packets transmitted, 0 received, 100% packet loss, time 0ms'' []) = 0"
    by code_simp
  show ?thesis
    using h C7_unreachable_has_no_latency [OF h] by simp
qed

section \<open>What the ping loop stores\<close>

lemma first_match_Some:
  "first_match f s = Some x \<Longrightarrow> \<exists>n. f (drop n s) = Some x"
proof (induction s)
  case Nil
  then show ?case by simp
next
  case (Cons c cs)
  show ?case
  proof (cases "f (c # cs)")
    case None
    with Cons obtain n where "f (drop n cs) = Some x" by auto
    then have "f (drop (Suc n) (c # cs)) = Some x" by simp
    then show ?thesis by blast
  next
    case (Some y)
    with Cons.prems have "f (drop 0 (c # cs)) = Some x" by simp
    then show ?thesis by blast
  qed
qed

lemma time_at_capture:
  assumes "time_at s = Some cap"
  shows "cap \<noteq> [] \<and> list_all is_numch cap"
proof -
  from assms obtain r3 where "cap = takeWhile is_numch r3" and "cap \<noteq> []"
    by (auto simp: time_at_def Let_def split: option.splits list.splits if_splits)
  then show ?thesis
    by (auto simp: list_all_iff dest: set_takeWhileD)
qed

lemma space_not_numch:
  "list_all (\<lambda>c. \<not> is_numch c) [CHR 0x09, CHR 0x0A, CHR 0x0B, CHR 0x0C, CHR 0x0D, CHR '' '']"
  by code_simp

lemma signs_not_numch:
  "\<not> is_numch (CHR ''-'')" "\<not> is_numch (CHR ''+'')" "\<not> is_numch (CHR ''I'')"
  by code_simp+

lemma parse_unsigned_numch:
  assumes "cap \<noteq> []" and "list_all is_numch cap"
  shows "parseFloat cap = NaN \<or> (\<exists>x. parseFloat cap = Finite x)"
proof -
  from assms obtain c r where cap: "cap = c # r" and c: "is_numch c"
    by (cases cap) auto
  have ns: "\<not> is_space c"
    using c space_not_numch unfolding is_space_def list_all_iff by blast
  have nm: "c \<noteq> CHR ''-''" using c signs_not_numch(1) by metis
  have np: "c \<noteq> CHR ''+''" using c signs_not_numch(2) by metis
  have ni: "c \<noteq> CHR ''I''" using c signs_not_numch(3) by metis
  have "parseFloat cap = parse_unsigned cap"
    using ns nm np by (simp add: parseFloat_def cap)
  moreover have "take 8 cap \<noteq> ''Infinity''"
    using ni by (simp add: cap)
  ultimately show ?thesis
    by (simp add: parse_unsigned_def Let_def)
qed

lemma runPingCommand_time_ms_finite:
  "time_ms (runPingCommand out err) = None
   \<or> time_ms (runPingCommand out err) = Some NaN
   \<or> (\<exists>x. time_ms (runPingCommand out err) = Some (Finite x))"
proof (cases "timeMatch (out @ err)")
  case None
  then show ?thesis by (simp add: runPingCommand_time_ms)
next
  case (Some cap)
  then have "\<exists>n. time_at (drop n (out @ err)) = Some cap"
    unfolding timeMatch_def by (rule first_match_Some)
  then obtain n where "time_at (drop n (out @ err)) = Some cap" ..
  then have "cap \<noteq> [] \<and> list_all is_numch cap" by (rule time_at_capture)
  then have "parseFloat cap = NaN \<or> (\<exists>x. parseFloat cap = Finite x)"
    by (intro parse_unsigned_numch) simp_all
  then show ?thesis using Some by (auto simp: runPingCommand_time_ms)
qed

text \<open>The statements about reports assume a store that \<open>written_by_ping_loop\<close> holds of:
  it holds of the empty table and every tick at a time at or after the epoch keeps it.\<close>

lemma written_by_ping_loop_Nil: "written_by_ping_loop []"
  by (simp add: written_by_ping_loop_def)

lemma written_by_ping_loop_tick:
  "0 \<le> ts \<Longrightarrow> written_by_ping_loop pings \<Longrightarrow>
   written_by_ping_loop (ping_tick ts target out err pings)"
  using runPingCommand_alive_range [of out err]
  by (auto simp: written_by_ping_loop_def ping_tick_def Let_def)

section \<open>The health classification\<close>





text \<open>The dashboard has no class of its own for an empty bucket: it paints it like a
  degraded one.\<close>

lemma segment_class_empty: "segment_class \<lparr>ok = k, total = 0\<rparr> = ''warning''"
  by (simp add: segment_class_def)



section \<open>The rows of the daily export\<close>




lemma agg_group_key [simp]:
  "a_minute_ts (agg_group ws k) = fst k" "a_target (agg_group ws k) = snd k"
  by (simp_all add: agg_group_def Let_def)













lemma sql_avg_Nil [simp]: "sql_avg [] = None"
  by (simp add: sql_avg_def non_null_def)
















lemma nat_digits_nonempty: "nat_digits n \<noteq> []"
  by (subst nat_digits.simps) simp












section \<open>The rows of the failures report\<close>

lemma map_insort_key: "map f (insort_key f x ys) = insort (f x) (map f ys)"
  by (induction ys) simp_all

lemma map_sort_key: "map f (sort_key f xs) = sort (map f xs)"
  by (induction xs) (simp_all add: map_insort_key)

lemma exists_near_iff:
  "exists_near pings tgt f_ts a \<longleftrightarrow>
     (\<exists>p \<in> set pings. p_target p = tgt \<and> \<bar>p_ts p - f_ts\<bar> \<le> TOL_MS \<and> p_alive p = a)"
  unfolding exists_near_def list_ex_iff by (intro bex_cong refl) auto

lemma other_col_spec:
  assumes "written_by_ping_loop pings"
  shows "other_col pings f_ts tgt =
     (if \<exists>p \<in> set pings. p_target p = tgt \<and> \<bar>p_ts p - f_ts\<bar> \<le> TOL_MS \<and> p_alive p = 1
      then ''success''
      else if \<exists>p \<in> set pings. p_target p = tgt \<and> \<bar>p_ts p - f_ts\<bar> \<le> TOL_MS
      then ''fail''
      else ''no_data'')"
proof -
  have a: "p_alive p = 0 \<or> p_alive p = 1" if "p \<in> set pings" for p
    using assms that by (simp add: written_by_ping_loop_def list_all_iff)
  have "(\<exists>p \<in> set pings. p_target p = tgt \<and> \<bar>p_ts p - f_ts\<bar> \<le> TOL_MS \<and> p_alive p = 0)
      \<longleftrightarrow> (\<exists>p \<in> set pings. p_target p = tgt \<and> \<bar>p_ts p - f_ts\<bar> \<le> TOL_MS)"
    if "\<not> (\<exists>p \<in> set pings. p_target p = tgt \<and> \<bar>p_ts p - f_ts\<bar> \<le> TOL_MS \<and> p_alive p = 1)"
    using that a by blast
  then show ?thesis
    unfolding other_col_def exists_near_iff by auto
qed

lemma failures_report_ts:
  "map fr_ts (failures_report start_s pings) = sort (map p_ts (filter (key_failure start_s) pings))"
  by (simp add: failures_report_def comp_def map_sort_key)

lemma failures_report_row:
  assumes "r \<in> set (failures_report start_s pings)"
  obtains f where "f \<in> set pings" and "key_failure start_s f" and "fr_ts r = p_ts f"
    and "fr_key r = ''fail''"
    and "fr_others r = map (\<lambda>tgt. (tgt, other_col pings (p_ts f) tgt)) TARGETS_OTHER"
  using assms by (auto simp: failures_report_def TARGETS_OTHER_def)

lemma map_of_tabulate:
  "k \<in> set ks \<Longrightarrow> map_of (map (\<lambda>k. (k, f k)) ks) k = Some (f k)"
  by (induction ks) auto

lemma TARGETS_OTHER_set: "set TARGETS_OTHER = set TARGETS - {TARGET_KEY}"
  by (auto simp: TARGETS_OTHER_def TARGETS_def TARGET_KEY_def)

lemma other_col_code:
  "other_col pings f_ts tgt =
     (if \<exists>p \<in> set pings. p_target p = tgt \<and> \<bar>p_ts p - f_ts\<bar> \<le> TOL_MS \<and> p_alive p = 1
      then ''success''
      else if \<exists>p \<in> set pings. p_target p = tgt \<and> \<bar>p_ts p - f_ts\<bar> \<le> TOL_MS \<and> p_alive p = 0
      then ''fail''
      else ''no_data'')"
  unfolding other_col_def exists_near_iff ..

text \<open>
  Claim C2. The report has one row per failure sample of the primary target \<^verbatim>\<open>1.1.1.1\<close> inside
  the day, in ascending order of the failures' timestamps. In each row, for every other
  configured target: the column is \<^verbatim>\<open>success\<close> if some sample of that target within
  \<^verbatim>\<open>TOL_MS\<close> of the failure's timestamp is reachable (\<open>alive = 1\<close>); otherwise \<^verbatim>\<open>fail\<close> if some
  sample of it within the tolerance has \<open>alive = 0\<close>; otherwise \<^verbatim>\<open>no_data\<close>. Success evidence
  so wins over fail evidence. In a store the ping loop wrote (\<open>alive\<close> is \<open>0\<close> or \<open>1\<close>) the
  middle case is: if any sample of it lies within the tolerance, whatever its reachability.
\<close>

theorem C2_failure_correlation:
  "map fr_ts (failures_report start_s pings) =
     sort (map p_ts (filter (\<lambda>f. p_target f = TARGET_KEY \<and> p_alive f = 0 \<and> in_day start_s f) pings))
   \<and> sorted (map fr_ts (failures_report start_s pings))
   \<and> set TARGETS_OTHER = set TARGETS - {TARGET_KEY}
   \<and> (\<forall>r \<in> set (failures_report start_s pings).
        fr_key r = ''fail'' \<and> map fst (fr_others r) = TARGETS_OTHER
        \<and> (\<forall>tgt \<in> set TARGETS_OTHER.
             map_of (fr_others r) tgt = Some
               (if \<exists>p \<in> set pings.
                     p_target p = tgt \<and> \<bar>p_ts p - fr_ts r\<bar> \<le> TOL_MS \<and> p_alive p = 1
                then ''success''
                else if \<exists>p \<in> set pings.
                     p_target p = tgt \<and> \<bar>p_ts p - fr_ts r\<bar> \<le> TOL_MS \<and> p_alive p = 0
                then ''fail''
                else ''no_data'')))
   \<and> (written_by_ping_loop pings \<longrightarrow>
        (\<forall>r \<in> set (failures_report start_s pings). \<forall>tgt \<in> set TARGETS_OTHER.
             map_of (fr_others r) tgt = Some
               (if \<exists>p \<in> set pings.
                     p_target p = tgt \<and> \<bar>p_ts p - fr_ts r\<bar> \<le> TOL_MS \<and> p_alive p = 1
                then ''success''
                else if \<exists>p \<in> set pings. p_target p = tgt \<and> \<bar>p_ts p - fr_ts r\<bar> \<le> TOL_MS
                then ''fail''
                else ''no_data'')))"
proof (intro conjI)
  have kf: "key_failure start_s = (\<lambda>f. p_target f = TARGET_KEY \<and> p_alive f = 0 \<and> in_day start_s f)"
    by (auto simp: key_failure_def TARGET_KEY_def in_day_def fun_eq_iff)
  show "map fr_ts (failures_report start_s pings) =
     sort (map p_ts (filter (\<lambda>f. p_target f = TARGET_KEY \<and> p_alive f = 0 \<and> in_day start_s f) pings))"
    unfolding failures_report_ts kf ..
  show "sorted (map fr_ts (failures_report start_s pings))"
    unfolding failures_report_ts by simp
  show "set TARGETS_OTHER = set TARGETS - {TARGET_KEY}"
    by (rule TARGETS_OTHER_set)
  have col: "map_of (fr_others r) tgt = Some (other_col pings (fr_ts r) tgt)"
    and key: "fr_key r = ''fail''" and heads: "map fst (fr_others r) = TARGETS_OTHER"
    if "r \<in> set (failures_report start_s pings)" and "tgt \<in> set TARGETS_OTHER" for r tgt
  proof -
    from that(1) obtain f where "f \<in> set pings" and "key_failure start_s f"
      and ts: "fr_ts r = p_ts f" and k: "fr_key r = ''fail''"
      and others: "fr_others r = map (\<lambda>tgt. (tgt, other_col pings (p_ts f) tgt)) TARGETS_OTHER"
      by (rule failures_report_row)
    show "fr_key r = ''fail''" by (rule k)
    show "map fst (fr_others r) = TARGETS_OTHER"
      unfolding others by (simp add: comp_def)
    show "map_of (fr_others r) tgt = Some (other_col pings (fr_ts r) tgt)"
      unfolding others ts using that(2) by (rule map_of_tabulate)
  qed
  have some: "''8.8.8.8'' \<in> set TARGETS_OTHER"
    by (simp add: TARGETS_OTHER_def)
  show "\<forall>r \<in> set (failures_report start_s pings).
        fr_key r = ''fail'' \<and> map fst (fr_others r) = TARGETS_OTHER
        \<and> (\<forall>tgt \<in> set TARGETS_OTHER.
             map_of (fr_others r) tgt = Some
               (if \<exists>p \<in> set pings.
                     p_target p = tgt \<and> \<bar>p_ts p - fr_ts r\<bar> \<le> TOL_MS \<and> p_alive p = 1
                then ''success''
                else if \<exists>p \<in> set pings.
                     p_target p = tgt \<and> \<bar>p_ts p - fr_ts r\<bar> \<le> TOL_MS \<and> p_alive p = 0
                then ''fail''
                else ''no_data''))"
    using key [OF _ some] heads [OF _ some] col
    by (simp only: other_col_code) blast
  show "written_by_ping_loop pings \<longrightarrow>
        (\<forall>r \<in> set (failures_report start_s pings). \<forall>tgt \<in> set TARGETS_OTHER.
             map_of (fr_others r) tgt = Some
               (if \<exists>p \<in> set pings.
                     p_target p = tgt \<and> \<bar>p_ts p - fr_ts r\<bar> \<le> TOL_MS \<and> p_alive p = 1
                then ''success''
                else if \<exists>p \<in> set pings. p_target p = tgt \<and> \<bar>p_ts p - fr_ts r\<bar> \<le> TOL_MS
                then ''fail''
                else ''no_data''))"
  proof (intro impI ballI)
    fix r tgt
    assume wf: "written_by_ping_loop pings"
      and "r \<in> set (failures_report start_s pings)" and "tgt \<in> set TARGETS_OTHER"
    then show "map_of (fr_others r) tgt = Some
               (if \<exists>p \<in> set pings.
                     p_target p = tgt \<and> \<bar>p_ts p - fr_ts r\<bar> \<le> TOL_MS \<and> p_alive p = 1
                then ''success''
                else if \<exists>p \<in> set pings. p_target p = tgt \<and> \<bar>p_ts p - fr_ts r\<bar> \<le> TOL_MS
                then ''fail''
                else ''no_data'')"
      by (simp only: col other_col_spec [OF wf])
  qed
qed

lemma example_report:
  "failures_report 0 example_pings =
     [\<lparr> fr_ts = 2000, fr_key = ''fail'',
        fr_others = [(''8.8.8.8'', ''success''), (''google.com'', ''fail''),
                     (''frontier.com'', ''no_data''), (''192.168.2.1'', ''no_data'')] \<rparr>]"
  by (simp add: failures_report_def example_pings_def sample_def key_failure_def START_MS_def
      END_MS_def other_col_def exists_near_def TOL_MS_def)

theorem C2_failure_correlation_witness:
  "written_by_ping_loop example_pings
   \<and> map fr_ts (failures_report 0 example_pings) = [2000]
   \<and> (\<exists>r. r \<in> set (failures_report 0 example_pings) \<and> fr_ts r = 2000
        \<and> map_of (fr_others r) ''8.8.8.8'' = Some ''success''
        \<and> map_of (fr_others r) ''google.com'' = Some ''fail''
        \<and> map_of (fr_others r) ''frontier.com'' = Some ''no_data''
        \<and> map_of (fr_others r) ''192.168.2.1'' = Some ''no_data'')"
proof -
  let ?r = "\<lparr> fr_ts = 2000, fr_key = ''fail'',
        fr_others = [(''8.8.8.8'', ''success''), (''google.com'', ''fail''),
                     (''frontier.com'', ''no_data''), (''192.168.2.1'', ''no_data'')] \<rparr>"
  have wf: "written_by_ping_loop example_pings"
    by (simp add: written_by_ping_loop_def example_pings_def sample_def)
  have mem: "?r \<in> set (failures_report 0 example_pings)"
    by (simp add: example_report)
  note c = C2_failure_correlation [of 0 example_pings]
  have fs: "filter (\<lambda>f. p_target f = TARGET_KEY \<and> p_alive f = 0 \<and> in_day 0 f) example_pings
      = [sample 2000 ''1.1.1.1'' 0 None]"
    by (simp add: example_pings_def sample_def TARGET_KEY_def in_day_def START_MS_def END_MS_def)
  have ts: "map fr_ts (failures_report 0 example_pings) = [2000]"
    using c unfolding fs by (simp add: sample_def)
  have cols: "\<forall>tgt \<in> set TARGETS_OTHER.
             map_of (fr_others ?r) tgt = Some
               (if \<exists>p \<in> set example_pings.
                     p_target p = tgt \<and> \<bar>p_ts p - fr_ts ?r\<bar> \<le> TOL_MS \<and> p_alive p = 1
                then ''success''
                else if \<exists>p \<in> set example_pings. p_target p = tgt \<and> \<bar>p_ts p - fr_ts ?r\<bar> \<le> TOL_MS
                then ''fail''
                else ''no_data'')"
    using c wf mem by blast
  have "map_of (fr_others ?r) ''8.8.8.8'' = Some ''success''"
    "map_of (fr_others ?r) ''google.com'' = Some ''fail''"
    "map_of (fr_others ?r) ''frontier.com'' = Some ''no_data''"
    "map_of (fr_others ?r) ''192.168.2.1'' = Some ''no_data''"
    using cols by (simp_all add: TARGETS_OTHER_def)
  then show ?thesis using wf ts mem by (intro conjI exI [of _ ?r]) simp_all
qed

section \<open>The status endpoint of \<^verbatim>\<open>server-sqlite3.js\<close>\<close>

lemma api_status_snoc:
  "api_status (cbs @ [(tgt, outcome)]) = status_callback tgt outcome (api_status cbs)"
  by (simp add: api_status_def)

lemma api_status_Nil: "api_status [] = status_init"
  by (simp add: api_status_def)

lemma status_callback_fields:
  "processed (status_callback tgt outcome st) = Suc (processed st)"
  "latest (status_callback tgt outcome st) = obj_set (latest st) tgt (row_or_null outcome)"
  "sent (status_callback tgt outcome st) =
     (if Suc (processed st) = length TARGETS
      then sent st @ [res_json (StatusOk TARGETS (obj_set (latest st) tgt (row_or_null outcome)))]
      else sent st)"
  by (simp_all add: status_callback_def Let_def row_or_null_def)

lemma processed_api_status: "processed (api_status cbs) = length cbs"
  by (induction cbs rule: rev_induct)
     (auto simp: api_status_Nil status_init_def api_status_snoc status_callback_fields)

lemma sent_api_status:
  "sent (api_status cbs) =
     (if length cbs < length TARGETS then []
      else [res_json (StatusOk TARGETS (latest (api_status (take (length TARGETS) cbs))))])"
proof (induction cbs rule: rev_induct)
  case Nil
  show ?case by (simp add: api_status_Nil status_init_def TARGETS_def)
next
  case (snoc cb cbs)
  obtain tgt outcome where cb: "cb = (tgt, outcome)" by (cases cb)
  show ?case
  proof (cases "Suc (length cbs) = length TARGETS")
    case True
    then have "sent (api_status cbs) = []" using snoc.IH by simp
    moreover have "take (length TARGETS) (cbs @ [cb]) = cbs @ [cb]" using True by simp
    ultimately show ?thesis
      using True unfolding cb api_status_snoc
      by (simp add: status_callback_fields processed_api_status api_status_snoc)
  next
    case False
    then show ?thesis
      using snoc.IH unfolding cb api_status_snoc
      by (auto simp: status_callback_fields processed_api_status)
  qed
qed

lemma map_of_obj_set: "map_of (obj_set kvs k v) = (map_of kvs)(k \<mapsto> v)"
  by (induction kvs k v rule: obj_set.induct) (auto simp: fun_eq_iff)

lemma keys_obj_set: "set (map fst (obj_set kvs k v)) = insert k (set (map fst kvs))"
  by (induction kvs k v rule: obj_set.induct) auto

lemma distinct_obj_set: "distinct (map fst kvs) \<Longrightarrow> distinct (map fst (obj_set kvs k v))"
  by (induction kvs k v rule: obj_set.induct) (auto simp: keys_obj_set simp flip: set_map)

lemma latest_keys: "set (map fst (latest (api_status cbs))) = set (map fst cbs)"
  by (induction cbs rule: rev_induct)
     (auto simp: api_status_Nil status_init_def api_status_snoc status_callback_fields
        keys_obj_set simp del: set_map)

lemma latest_distinct: "distinct (map fst (latest (api_status cbs)))"
  by (induction cbs rule: rev_induct)
     (auto simp: api_status_Nil status_init_def api_status_snoc status_callback_fields
        distinct_obj_set)

lemma latest_value:
  "distinct (map fst cbs) \<Longrightarrow> (tgt, outcome) \<in> set cbs \<Longrightarrow>
   map_of (latest (api_status cbs)) tgt = Some (row_or_null outcome)"
proof (induction cbs rule: rev_induct)
  case Nil
  then show ?case by simp
next
  case (snoc cb cbs)
  obtain t' o' where cb: "cb = (t', o')" by (cases cb)
  show ?case
  proof (cases "(tgt, outcome) = cb")
    case True
    then show ?thesis
      unfolding cb api_status_snoc by (simp add: status_callback_fields map_of_obj_set)
  next
    case False
    with snoc.prems have mem: "(tgt, outcome) \<in> set cbs" by simp
    with snoc.prems have "tgt \<noteq> t'" unfolding cb by force
    moreover have "map_of (latest (api_status cbs)) tgt = Some (row_or_null outcome)"
      using snoc.IH snoc.prems mem by simp
    ultimately show ?thesis
      unfolding cb api_status_snoc by (simp add: status_callback_fields map_of_obj_set)
  qed
qed

lemma all_called_back_length:
  assumes "distinct (map fst cbs)" and "set (map fst cbs) = set TARGETS"
  shows "length cbs = length TARGETS"
proof -
  have "length cbs = card (set (map fst cbs))"
    using distinct_card [OF assms(1)] by simp
  also have "\<dots> = length TARGETS"
    unfolding assms(2) by (simp add: TARGETS_def)
  finally show ?thesis .
qed

lemma sent_ok: "list_all (\<lambda>resp. ok_field (body resp)) (sent (api_status cbs))"
  by (simp add: sent_api_status res_json_def)

text \<open>
  Claim C10. In \<^verbatim>\<open>server-sqlite3.js\<close>, once the read of every configured target has called
  back (each once, in any order, with any outcome), \<^verbatim>\<open>GET /api/status\<close> has sent exactly one
  response: status 200, \<^verbatim>\<open>ok:true\<close>, with exactly one key per configured target, whose entry
  is the row read, or \<^verbatim>\<open>null\<close> when the target has no sample or its read failed. A failed
  read leaves the same state as a read that found no sample. Nothing is sent before the
  last callback, and nothing this endpoint ever sends has \<^verbatim>\<open>ok:false\<close>.
\<close>

theorem C10_status_always_ok:
  assumes "distinct (map fst cbs)" and "set (map fst cbs) = set TARGETS"
  shows
  "sent (api_status cbs) =
     [\<lparr> status = 200, body = StatusOk TARGETS (latest (api_status cbs)) \<rparr>]
   \<and> ok_field (StatusOk TARGETS (latest (api_status cbs)))
   \<and> distinct (map fst (latest (api_status cbs)))
   \<and> set (map fst (latest (api_status cbs))) = set TARGETS
   \<and> (\<forall>(tgt, outcome) \<in> set cbs.
        map_of (latest (api_status cbs)) tgt = Some (row_or_null outcome))
   \<and> (\<forall>tgt err st. status_callback tgt (Inl err) st = status_callback tgt (Inr None) st)
   \<and> (\<forall>n < length cbs. sent (api_status (take n cbs)) = [])
   \<and> (\<forall>cbs'. list_all (\<lambda>resp. ok_field (body resp)) (sent (api_status cbs')))"
proof (intro conjI)
  note len = all_called_back_length [OF assms]
  show "sent (api_status cbs) =
     [\<lparr> status = 200, body = StatusOk TARGETS (latest (api_status cbs)) \<rparr>]"
    by (simp add: sent_api_status len res_json_def)
  show "ok_field (StatusOk TARGETS (latest (api_status cbs)))" by simp
  show "distinct (map fst (latest (api_status cbs)))" by (rule latest_distinct)
  show "set (map fst (latest (api_status cbs))) = set TARGETS"
    unfolding latest_keys by (rule assms(2))
  show "\<forall>(tgt, outcome) \<in> set cbs.
        map_of (latest (api_status cbs)) tgt = Some (row_or_null outcome)"
    using latest_value [OF assms(1)] by blast
  show "\<forall>tgt err st. status_callback tgt (Inl err) st = status_callback tgt (Inr None) st"
    by (simp add: status_callback_def row_or_null_def)
  show "\<forall>n < length cbs. sent (api_status (take n cbs)) = []"
    by (simp add: sent_api_status len)
  show "\<forall>cbs'. list_all (\<lambda>resp. ok_field (body resp)) (sent (api_status cbs'))"
    by (simp add: sent_ok)
qed

lemma example_callbacks_complete:
  "distinct (map fst example_callbacks)" "set (map fst example_callbacks) = set TARGETS"
  by (auto simp: example_callbacks_def TARGETS_def)

theorem C10_status_always_ok_witness:
  "distinct (map fst example_callbacks)
   \<and> set (map fst example_callbacks) = set TARGETS
   \<and> sent (api_status example_callbacks) =
       [\<lparr> status = 200,
          body = StatusOk TARGETS
            [ (''8.8.8.8'', None), (''google.com'', None),
              (''1.1.1.1'', Some (sample 2000 ''1.1.1.1'' 0 None)),
              (''192.168.2.1'', None), (''frontier.com'', None) ] \<rparr>]
   \<and> sent (api_status (take 4 example_callbacks)) = []"
proof -
  note c = C10_status_always_ok [OF example_callbacks_complete]
  have l: "latest (api_status example_callbacks) =
      [ (''8.8.8.8'', None), (''google.com'', None),
        (''1.1.1.1'', Some (sample 2000 ''1.1.1.1'' 0 None)),
        (''192.168.2.1'', None), (''frontier.com'', None) ]"
    by (simp add: api_status_def example_callbacks_def status_init_def status_callback_def
        row_or_null_def TARGETS_def Let_def)
  have "(4::nat) < length example_callbacks"
    by (simp add: example_callbacks_def)
  with c have "sent (api_status (take 4 example_callbacks)) = []"
    by blast
  then show ?thesis
    using c example_callbacks_complete unfolding l by simp
qed

section \<open>The pings endpoint\<close>




lemma api_pings_cases:
  "api_pings now req d =
     (case query_pings d (pings_since now req) (limit_param req ''200000'') of
        Inl err \<Rightarrow> \<lparr> status = 200, body = NotOk err \<rparr>
      | Inr rows \<Rightarrow> \<lparr> status = 200, body = PingsOk (pings_since now req) rows \<rparr>)"
  by (simp add: api_pings_def Let_def res_json_def split: sum.split)

lemma api_pings_better_cases:
  "api_pings_better now req d =
     (case query_pings d (pings_since now req) (limit_param req ''200000'') of
        Inl err \<Rightarrow> Inl err
      | Inr rows \<Rightarrow> Inr \<lparr> status = 200, body = PingsOk (pings_since now req) rows \<rparr>)"
  by (simp add: api_pings_better_def Let_def res_json_def split: sum.split)

lemma api_traceroutes_cases:
  "api_traceroutes req d =
     (case query_traceroutes d (limit_param req ''10'') of
        Inl err \<Rightarrow> \<lparr> status = 200, body = NotOk err \<rparr>
      | Inr rows \<Rightarrow> \<lparr> status = 200, body = TraceroutesOk rows \<rparr>)"
  by (simp add: api_traceroutes_def Let_def res_json_def split: sum.split)













section \<open>Failed queries\<close>

lemma query_fails_on_fault:
  "db_fault d = Some err \<Longrightarrow> query_pings d since limit = Inl err"
  "db_fault d = Some err \<Longrightarrow> query_traceroutes d limit = Inl err"
  by (simp_all add: query_pings_def query_traceroutes_def)

text \<open>In the better-sqlite3 server the error of a failed query leaves the handler as an
  exception; the handler itself sends nothing.\<close>

lemma api_pings_better_throws:
  "query_pings d (pings_since now req) (limit_param req ''200000'') = Inl err \<Longrightarrow>
   api_pings_better now req d = Inl err"
  by (simp add: api_pings_better_cases)

text \<open>
  Claim C4, as the code has it. In \<^verbatim>\<open>server-sqlite3.js\<close>, \<^verbatim>\<open>/api/pings\<close> and
  \<^verbatim>\<open>/api/traceroutes\<close> answer a failed query (an unreadable store is one) with status 200 and
  the body \<^verbatim>\<open>{ok:false, err}\<close> carrying the error's message. \<^verbatim>\<open>/api/status\<close> does not surface
  a failed read: once every target has called back it answers \<^verbatim>\<open>ok:true\<close>, with \<^verbatim>\<open>null\<close> for
  the target whose read failed.
\<close>

theorem C4_query_failure_responses:
  "(query_pings d (pings_since now req) (limit_param req ''200000'') = Inl err \<longrightarrow>
      api_pings now req d = \<lparr> status = 200, body = NotOk err \<rparr>)
   \<and> (query_traceroutes d (limit_param req ''10'') = Inl err \<longrightarrow>
        api_traceroutes req d = \<lparr> status = 200, body = NotOk err \<rparr>)
   \<and> (db_fault d = Some err \<longrightarrow>
        api_pings now req d = \<lparr> status = 200, body = NotOk err \<rparr>
        \<and> api_traceroutes req d = \<lparr> status = 200, body = NotOk err \<rparr>)
   \<and> \<not> ok_field (NotOk err) \<and> err_field (NotOk err) = Some err
   \<and> (distinct (map fst cbs) \<and> set (map fst cbs) = set TARGETS \<and> (tgt, Inl err) \<in> set cbs
        \<longrightarrow>
        sent (api_status cbs) =
          [\<lparr> status = 200, body = StatusOk TARGETS (latest (api_status cbs)) \<rparr>]
        \<and> ok_field (StatusOk TARGETS (latest (api_status cbs)))
        \<and> map_of (latest (api_status cbs)) tgt = Some None)"
proof (intro conjI impI)
  assume "query_pings d (pings_since now req) (limit_param req ''200000'') = Inl err"
  then show "api_pings now req d = \<lparr> status = 200, body = NotOk err \<rparr>"
    by (simp add: api_pings_cases)
next
  assume "query_traceroutes d (limit_param req ''10'') = Inl err"
  then show "api_traceroutes req d = \<lparr> status = 200, body = NotOk err \<rparr>"
    by (simp add: api_traceroutes_cases)
next
  assume f: "db_fault d = Some err"
  show "api_pings now req d = \<lparr> status = 200, body = NotOk err \<rparr>"
    by (simp add: api_pings_cases query_fails_on_fault(1) [OF f])
  show "api_traceroutes req d = \<lparr> status = 200, body = NotOk err \<rparr>"
    by (simp add: api_traceroutes_cases query_fails_on_fault(2) [OF f])
next
  show "\<not> ok_field (NotOk err)" by simp
  show "err_field (NotOk err) = Some err" by simp
next
  assume a: "distinct (map fst cbs) \<and> set (map fst cbs) = set TARGETS
      \<and> (tgt, Inl err) \<in> set cbs"
  then have len: "length cbs = length TARGETS"
    by (intro all_called_back_length) simp_all
  show "sent (api_status cbs) =
          [\<lparr> status = 200, body = StatusOk TARGETS (latest (api_status cbs)) \<rparr>]"
    by (simp add: sent_api_status len res_json_def)
  show "ok_field (StatusOk TARGETS (latest (api_status cbs)))" by simp
  have "map_of (latest (api_status cbs)) tgt = Some (row_or_null (Inl err))"
    using a by (intro latest_value) simp_all
  then show "map_of (latest (api_status cbs)) tgt = Some None"
    by (simp add: row_or_null_def)
qed

lemma parseInt10_abc: "parseInt10 ''abc'' = NaN" by code_simp

theorem C4_query_failure_responses_witness:
  "db_fault locked_db = Some ''SQLITE_BUSY: database is locked''
   \<and> api_pings 3601000 \<lparr> q_hours = None, q_limit = None \<rparr> locked_db =
       \<lparr> status = 200, body = NotOk ''SQLITE_BUSY: database is locked'' \<rparr>
   \<and> api_traceroutes \<lparr> q_hours = None, q_limit = None \<rparr> locked_db =
       \<lparr> status = 200, body = NotOk ''SQLITE_BUSY: database is locked'' \<rparr>
   \<and> query_pings example_db (pings_since 3601000 \<lparr> q_hours = None, q_limit = Some ''abc'' \<rparr>)
         (limit_param \<lparr> q_hours = None, q_limit = Some ''abc'' \<rparr> ''200000'')
       = Inl ''datatype mismatch''
   \<and> api_pings 3601000 \<lparr> q_hours = None, q_limit = Some ''abc'' \<rparr> example_db =
       \<lparr> status = 200, body = NotOk ''datatype mismatch'' \<rparr>
   \<and> distinct (map fst example_callbacks)
   \<and> set (map fst example_callbacks) = set TARGETS
   \<and> (''8.8.8.8'', Inl ''SQLITE_BUSY: database is locked'') \<in> set example_callbacks
   \<and> sent (api_status example_callbacks) =
       [\<lparr> status = 200, body = StatusOk TARGETS (latest (api_status example_callbacks)) \<rparr>]
   \<and> map_of (latest (api_status example_callbacks)) ''8.8.8.8'' = Some None"
proof -
  let ?abs = "\<lparr> q_hours = None, q_limit = None \<rparr>"
  let ?bad = "\<lparr> q_hours = None, q_limit = Some ''abc'' \<rparr>"
  let ?busy = "''SQLITE_BUSY: database is locked''"
  note c = C4_query_failure_responses
  note c_locked = c [where d = locked_db and now = 3601000 and req = ?abs and err = ?busy
      and cbs = example_callbacks and tgt = "''8.8.8.8''"]
  note c_bad = c [where d = example_db and now = 3601000 and req = ?bad
      and err = "''datatype mismatch''" and cbs = example_callbacks and tgt = "''8.8.8.8''"]
  have fault: "db_fault locked_db = Some ?busy"
    by (simp add: locked_db_def)
  have bad: "query_pings example_db (pings_since 3601000 ?bad) (limit_param ?bad ''200000'')
      = Inl ''datatype mismatch''"
    by (simp add: query_pings_def example_db_def limit_param_def parseInt10_abc sql_limit_def)
  have mem: "(''8.8.8.8'', Inl ?busy) \<in> set example_callbacks"
    by (simp add: example_callbacks_def)
  have "api_pings 3601000 ?abs locked_db = \<lparr> status = 200, body = NotOk ?busy \<rparr>"
    and "api_traceroutes ?abs locked_db = \<lparr> status = 200, body = NotOk ?busy \<rparr>"
    using c_locked fault by blast+
  moreover have "api_pings 3601000 ?bad example_db =
      \<lparr> status = 200, body = NotOk ''datatype mismatch'' \<rparr>"
    using c_bad bad by blast
  moreover have "sent (api_status example_callbacks) =
       [\<lparr> status = 200, body = StatusOk TARGETS (latest (api_status example_callbacks)) \<rparr>]"
    and "map_of (latest (api_status example_callbacks)) ''8.8.8.8'' = Some None"
    using c_locked example_callbacks_complete mem by blast+
  ultimately show ?thesis
    using fault bad mem example_callbacks_complete by (intro conjI)
qed

text \<open>
  Against claim C4 as stated: when all five reads of a status request fail, the response
  of \<^verbatim>\<open>server-sqlite3.js\<close> is \<^verbatim>\<open>ok:true\<close> with five \<^verbatim>\<open>null\<close> entries.
\<close>

theorem C4_status_failure_counterexample:
  "sent (api_status
      [ (''google.com'', Inl ''SQLITE_BUSY: database is locked''),
        (''8.8.8.8'', Inl ''SQLITE_BUSY: database is locked''),
        (''1.1.1.1'', Inl ''SQLITE_BUSY: database is locked''),
        (''frontier.com'', Inl ''SQLITE_BUSY: database is locked''),
        (''192.168.2.1'', Inl ''SQLITE_BUSY: database is locked'') ]) =
     [\<lparr> status = 200,
        body = StatusOk TARGETS
          [ (''google.com'', None), (''8.8.8.8'', None), (''1.1.1.1'', None),
            (''frontier.com'', None), (''192.168.2.1'', None) ] \<rparr>]
   \<and> ok_field (StatusOk TARGETS
          [ (''google.com'', None), (''8.8.8.8'', None), (''1.1.1.1'', None),
            (''frontier.com'', None), (''192.168.2.1'', None) ])"
  by (simp add: api_status_def status_init_def status_callback_def row_or_null_def
      TARGETS_def Let_def res_json_def)

end
